theory Spec2Isabelle
  imports Main "HOL-Library.Word"
begin

section \<open>The RM69080 panel driver (panel-raydium-rm69080.c)\<close>

text \<open>
  A shallow embedding of \<^verbatim>\<open>drivers/gpu/drm/panel/panel-raydium-rm69080.c\<close>: the command
  table, the command sequencer \<^verbatim>\<open>set_cmd_rm69080\<close>, the four lifecycle callbacks and
  \<^verbatim>\<open>rm69080_get_modes\<close>. The DSI bus, \<^verbatim>\<open>msleep\<close>, the kernel log and the DRM core are
  not part of the file; they are the environment the driver runs in.
\<close>

subsection \<open>Command table\<close>

type_synonym u8 = "8 word"

record cmd_dsi =
  cmd :: u8
  param :: u8

definition SLEEP_CMD :: u8 where
  "SLEEP_CMD = 0"

definition rm69080_400x400_mod :: "cmd_dsi list" where
  "rm69080_400x400_mod =
    [\<lparr>cmd = 0xFE, param = 0x05\<rparr>,
     \<lparr>cmd = 0x05, param = 0x00\<rparr>,
     \<lparr>cmd = 0xFE, param = 0x07\<rparr>,
     \<lparr>cmd = 0x07, param = 0x4F\<rparr>,
     \<lparr>cmd = 0xFE, param = 0x0A\<rparr>,
     \<lparr>cmd = 0x1C, param = 0x1B\<rparr>,
     \<lparr>cmd = 0xFE, param = 0x00\<rparr>,
     \<lparr>cmd = 0x35, param = 0x00\<rparr>,
     \<lparr>cmd = 0x51, param = 0xF0\<rparr>,
     \<lparr>cmd = 0x38, param = 0x00\<rparr>,
     \<lparr>cmd = 0x11, param = 0x00\<rparr>,
     \<lparr>cmd = SLEEP_CMD, param = 0x96\<rparr>,
     \<lparr>cmd = SLEEP_CMD, param = 0x96\<rparr>,
     \<lparr>cmd = 0x29, param = 0x00\<rparr>]"

subsection \<open>Panel context\<close>

text \<open>
  \<^verbatim>\<open>struct rm69080\<close>. The two pointers are kept as opaque handles; the embedded
  \<^verbatim>\<open>struct drm_panel base\<close> is only used to find the context again
  (\<^verbatim>\<open>panel_to_rm69080\<close>) and is left out.
\<close>

record rm69080 =
  dsi :: nat
  i2c :: nat
  prepared :: bool
  enabled :: bool

subsection \<open>Environment: bus, delays and the kernel log\<close>

text \<open>
  What the driver does to the outside is recorded in a \<open>world\<close>: the bus calls and
  sleeps in the order they happen (\<open>trace\<close>), the messages given to \<^verbatim>\<open>dev_info\<close> and
  \<^verbatim>\<open>dev_err\<close> (\<open>dmesg\<close>), and the number of bus calls made so far (\<open>calls\<close>).
  The value a bus call returns is not decided by the driver: \<open>bus n\<close> is the value
  that the \<open>n\<close>-th bus call of the run (counted from 0) stores in \<^verbatim>\<open>ret\<close>.
\<close>

datatype event =
    GenericWrite "u8 list"
  | Msleep nat
  | DcsExitSleepMode
  | DcsSetDisplayOn
  | DcsSetDisplayOff
  | DcsEnterSleepMode

datatype log_arg = Str string | Num int

datatype log_entry =
    DevErr string "log_arg list"
  | DevInfo string "log_arg list"

record world =
  calls :: nat
  trace :: "event list"
  dmesg :: "log_entry list"

type_synonym bus = "nat \<Rightarrow> int"

definition bus_call :: "bus \<Rightarrow> event \<Rightarrow> world \<Rightarrow> int \<times> world" where
  "bus_call bus ev w =
     (bus (calls w), w\<lparr>calls := Suc (calls w), trace := trace w @ [ev]\<rparr>)"

definition mipi_dsi_generic_write :: "bus \<Rightarrow> u8 list \<Rightarrow> world \<Rightarrow> int \<times> world" where
  "mipi_dsi_generic_write bus buffer w = bus_call bus (GenericWrite buffer) w"

definition mipi_dsi_dcs_exit_sleep_mode :: "bus \<Rightarrow> world \<Rightarrow> int \<times> world" where
  "mipi_dsi_dcs_exit_sleep_mode bus w = bus_call bus DcsExitSleepMode w"

definition mipi_dsi_dcs_set_display_on :: "bus \<Rightarrow> world \<Rightarrow> int \<times> world" where
  "mipi_dsi_dcs_set_display_on bus w = bus_call bus DcsSetDisplayOn w"

definition mipi_dsi_dcs_set_display_off :: "bus \<Rightarrow> world \<Rightarrow> int \<times> world" where
  "mipi_dsi_dcs_set_display_off bus w = bus_call bus DcsSetDisplayOff w"

definition mipi_dsi_dcs_enter_sleep_mode :: "bus \<Rightarrow> world \<Rightarrow> int \<times> world" where
  "mipi_dsi_dcs_enter_sleep_mode bus w = bus_call bus DcsEnterSleepMode w"

definition msleep :: "nat \<Rightarrow> world \<Rightarrow> world" where
  "msleep msecs w = w\<lparr>trace := trace w @ [Msleep msecs]\<rparr>"

definition dev_err :: "string \<Rightarrow> log_arg list \<Rightarrow> world \<Rightarrow> world" where
  "dev_err fmt args w = w\<lparr>dmesg := dmesg w @ [DevErr fmt args]\<rparr>"

definition dev_info :: "string \<Rightarrow> log_arg list \<Rightarrow> world \<Rightarrow> world" where
  "dev_info fmt args w = w\<lparr>dmesg := dmesg w @ [DevInfo fmt args]\<rparr>"

definition DSI_DRIVER_NAME :: string where
  "DSI_DRIVER_NAME = ''kingtech-pv13900als20c''"

subsection \<open>Command sequencer\<close>

text \<open>
  \<^verbatim>\<open>set_cmd_rm69080(dsi, cmd_list, count)\<close>. The pair \<^verbatim>\<open>(cmd_list, count)\<close> is the list of
  the \<^verbatim>\<open>count\<close> entries the loop visits; \<open>set_cmd_loop\<close> is the \<^verbatim>\<open>for\<close> loop, with
  \<^verbatim>\<open>ret\<close> carried from one iteration to the next. Format strings are given without
  their final newline.
\<close>

fun set_cmd_loop :: "bus \<Rightarrow> cmd_dsi list \<Rightarrow> int \<Rightarrow> world \<Rightarrow> int \<times> world" where
  "set_cmd_loop bus [] ret w = (ret, w)"
| "set_cmd_loop bus (entry # rest) ret w =
     (if cmd entry \<noteq> SLEEP_CMD then
        (case mipi_dsi_generic_write bus [cmd entry, param entry] w of
           (ret', w') \<Rightarrow>
             if ret' < 0 then (ret', dev_err ''mipi_dsi_generic_write() failed'' [] w')
             else set_cmd_loop bus rest ret' w')
      else
        set_cmd_loop bus rest ret
          (msleep (unat (param entry))
             (dev_info ''sleep: %d ms'' [Num (uint (param entry))] w)))"

definition set_cmd_rm69080 :: "bus \<Rightarrow> cmd_dsi list \<Rightarrow> world \<Rightarrow> int \<times> world" where
  "set_cmd_rm69080 bus cmd_list w = set_cmd_loop bus cmd_list 0 w"

subsection \<open>Lifecycle callbacks\<close>

text \<open>
  Each callback takes the panel context and the world and returns the C return value,
  the context and the world as it leaves them.
\<close>

definition rm69080_disable :: "bus \<Rightarrow> rm69080 \<Rightarrow> world \<Rightarrow> int \<times> rm69080 \<times> world" where
  "rm69080_disable bus ctx w =
     (let w1 = dev_info ''%s:%s'' [Str DSI_DRIVER_NAME, Str ''rm69080_disable''] w
      in if \<not> enabled ctx then (0, ctx, w1)
         else (0, ctx\<lparr>enabled := False\<rparr>, w1))"

definition rm69080_unprepare :: "bus \<Rightarrow> rm69080 \<Rightarrow> world \<Rightarrow> int \<times> rm69080 \<times> world" where
  "rm69080_unprepare bus ctx w =
     (let w1 = dev_info ''%s:%s'' [Str DSI_DRIVER_NAME, Str ''rm69080_unprepare''] w
      in if \<not> prepared ctx then (0, ctx, w1)
         else
           (case mipi_dsi_dcs_set_display_off bus w1 of
              (ret, w2) \<Rightarrow>
                let w3 = (if ret \<noteq> 0
                          then dev_info ''failed to set display off: %d'' [Num ret] w2
                          else w2)
                in (case mipi_dsi_dcs_enter_sleep_mode bus w3 of
                      (ret, w4) \<Rightarrow>
                        let w5 = (if ret \<noteq> 0
                                  then dev_info ''failed to enter sleep mode: %d'' [Num ret] w4
                                  else w4)
                        in (0, ctx\<lparr>prepared := False\<rparr>, w5))))"

definition rm69080_prepare :: "bus \<Rightarrow> rm69080 \<Rightarrow> world \<Rightarrow> int \<times> rm69080 \<times> world" where
  "rm69080_prepare bus ctx w =
     (let w1 = dev_info ''%s:%s'' [Str DSI_DRIVER_NAME, Str ''rm69080_prepare''] w
      in (case set_cmd_rm69080 bus rm69080_400x400_mod w1 of
            (ignored, w2) \<Rightarrow>
              (case mipi_dsi_dcs_exit_sleep_mode bus w2 of
                 (ret, w3) \<Rightarrow>
                   if ret \<noteq> 0 then
                     (ret, ctx,
                      dev_err ''mipi_dsi_dcs_exit_sleep_mode() failed: %d'' [Num ret] w3)
                   else
                     (case mipi_dsi_dcs_set_display_on bus (msleep 40 w3) of
                        (ret, w4) \<Rightarrow>
                          if ret \<noteq> 0 then
                            (ret, ctx,
                             dev_err ''mipi_dsi_dcs_exit_sleep_mode() failed: %d'' [Num ret] w4)
                          else
                            (0, ctx\<lparr>prepared := True\<rparr>, msleep 20 w4)))))"

definition rm69080_enable :: "bus \<Rightarrow> rm69080 \<Rightarrow> world \<Rightarrow> int \<times> rm69080 \<times> world" where
  "rm69080_enable bus ctx w =
     (let w1 = dev_info ''%s:%s'' [Str DSI_DRIVER_NAME, Str ''rm69080_enable''] w
      in if enabled ctx then (0, ctx, w1)
         else (0, ctx\<lparr>enabled := True\<rparr>, w1))"

subsection \<open>Display mode and \<^verbatim>\<open>get_modes\<close>\<close>

text \<open>
  \<^verbatim>\<open>struct drm_display_mode\<close> is declared by the DRM core; the record keeps the fields
  this driver initialises, reads or writes (\<open>mode_type\<close> is the C field \<^verbatim>\<open>type\<close>). The
  initialiser of \<^verbatim>\<open>rm69080_modes\<close> leaves every field it does not name zero.
\<close>

record drm_display_mode =
  clock :: int
  hdisplay :: int
  hsync_start :: int
  hsync_end :: int
  htotal :: int
  vdisplay :: int
  vsync_start :: int
  vsync_end :: int
  vtotal :: int
  mode_type :: int
  width_mm :: int
  height_mm :: int
  name :: string

definition rm69080_modes :: "drm_display_mode list" where
  "rm69080_modes =
    [\<lparr>clock = 11094,
      hdisplay = 400,
      hsync_start = 400 + 10,
      hsync_end = 400 + 10 + 10,
      htotal = 10 + 400 + 10 + 10,
      vdisplay = 400,
      vsync_start = 400 + 10,
      vsync_end = 400 + 10 + 10,
      vtotal = 10 + 400 + 10 + 10,
      mode_type = 0,
      width_mm = 0,
      height_mm = 0,
      name = []\<rparr>]"

text \<open>
  \<^verbatim>\<open>struct drm_connector\<close>, as far as \<^verbatim>\<open>rm69080_get_modes\<close> touches it: the list of
  probed modes and the two sizes of \<^verbatim>\<open>display_info\<close>.
\<close>

record drm_connector =
  probed_modes :: "drm_display_mode list"
  display_info_width_mm :: int
  display_info_height_mm :: int

text \<open>
  The DRM core as the driver sees it. Its functions are not in this file, so what they
  decide is a parameter: whether the allocation in \<^verbatim>\<open>drm_mode_duplicate\<close> succeeds, the
  name \<^verbatim>\<open>drm_mode_set_name\<close> writes, the rate \<^verbatim>\<open>drm_mode_vrefresh\<close> computes, and the value
  of the constant \<^verbatim>\<open>DRM_MODE_TYPE_DRIVER\<close>.
\<close>

record drm_core =
  alloc_ok :: bool
  mode_name :: "drm_display_mode \<Rightarrow> string"
  mode_vrefresh :: "drm_display_mode \<Rightarrow> int"
  DRM_MODE_TYPE_DRIVER :: int

text \<open>
  Modelled from the spec: \<^verbatim>\<open>drm_mode_duplicate\<close> (DRM core, not in this file) is the
  collaborator's "mode duplication/allocation": it returns a copy of the mode, or
  \<^verbatim>\<open>NULL\<close> (\<open>None\<close>) when the allocation fails.
\<close>

definition drm_mode_duplicate :: "drm_core \<Rightarrow> drm_display_mode \<Rightarrow> drm_display_mode option" where
  "drm_mode_duplicate core m = (if alloc_ok core then Some m else None)"

text \<open>
  Modelled from the spec: \<^verbatim>\<open>drm_mode_set_name\<close> (DRM core, not in this file) writes the
  name of the mode and nothing else.
\<close>

definition drm_mode_set_name :: "drm_core \<Rightarrow> drm_display_mode \<Rightarrow> drm_display_mode" where
  "drm_mode_set_name core m = m\<lparr>name := mode_name core m\<rparr>"

text \<open>
  Modelled from the spec: \<^verbatim>\<open>drm_mode_probed_add\<close> (DRM core, not in this file) is the
  mode registry that "accepts a DisplayMode descriptor and stores it for later
  enumeration": the mode is added at the end of the connector's list.
\<close>

definition drm_mode_probed_add :: "drm_connector \<Rightarrow> drm_display_mode \<Rightarrow> drm_connector" where
  "drm_mode_probed_add connector m =
     connector\<lparr>probed_modes := probed_modes connector @ [m]\<rparr>"

text \<open>
  \<^verbatim>\<open>rm69080_get_modes\<close>. When \<^verbatim>\<open>drm_mode_duplicate\<close> returns \<^verbatim>\<open>NULL\<close> the function logs
  an error and goes on; the next use of \<^verbatim>\<open>mode\<close> (\<^verbatim>\<open>drm_mode_set_name(mode)\<close>) reads
  through the null pointer, which is the fault below.
\<close>

datatype fault = NullPointerDereference

definition rm69080_get_modes ::
  "drm_core \<Rightarrow> rm69080 \<Rightarrow> drm_connector \<Rightarrow> world \<Rightarrow>
     (fault \<times> world) + (int \<times> drm_connector \<times> world)" where
  "rm69080_get_modes core ctx connector w =
     (let m = rm69080_modes ! 0;
          w1 = dev_info ''%s:%s'' [Str DSI_DRIVER_NAME, Str ''rm69080_get_modes''] w;
          mode = drm_mode_duplicate core m;
          w2 = (if mode = None then dev_err ''mipi_dsi_attach() failed'' [] w1 else w1);
          w3 = dev_info ''add mode %ux%u@%u''
                 [Num (hdisplay m), Num (vdisplay m), Num (mode_vrefresh core m)] w2
      in (case mode of
            None \<Rightarrow> Inl (NullPointerDereference, w3)
          | Some mode0 \<Rightarrow>
              let mode1 = drm_mode_set_name core mode0;
                  mode2 = mode1\<lparr>mode_type := DRM_MODE_TYPE_DRIVER core\<rparr>;
                  connector1 = connector\<lparr>display_info_width_mm := width_mm mode2\<rparr>;
                  connector2 = connector1\<lparr>display_info_height_mm := height_mm mode2\<rparr>
              in Inr (1, drm_mode_probed_add connector2 mode2, w3)))"

subsection \<open>Sequences of lifecycle calls\<close>







subsection \<open>Vocabulary of the specification\<close>

text \<open>
  What applying one entry of a command list means in the specification: a two-byte
  write of register and value, or, for register \<open>0x00\<close>, a sleep of \<open>value\<close>
  milliseconds.
\<close>

definition apply_entry :: "cmd_dsi \<Rightarrow> event" where
  "apply_entry entry =
     (if cmd entry = 0x00 then Msleep (unat (param entry))
      else GenericWrite [cmd entry, param entry])"

text \<open>The number of bus writes a list of entries asks for.\<close>

definition writes_in :: "cmd_dsi list \<Rightarrow> nat" where
  "writes_in cmd_list = length (filter (\<lambda>entry. cmd entry \<noteq> SLEEP_CMD) cmd_list)"

text \<open>
  The world in which \<open>rm69080_prepare\<close> issues exit-sleep-mode: the one the command
  sequencer leaves when it has run on the vendor table. Its \<open>calls\<close> is the number of
  the exit-sleep-mode bus call.
\<close>

definition after_cmd_list :: "bus \<Rightarrow> world \<Rightarrow> world" where
  "after_cmd_list bus w =
     snd (set_cmd_rm69080 bus rm69080_400x400_mod
            (dev_info ''%s:%s'' [Str DSI_DRIVER_NAME, Str ''rm69080_prepare''] w))"

text \<open>
  Concrete inputs: a panel as \<^verbatim>\<open>devm_kzalloc\<close> leaves it in \<^verbatim>\<open>rm69080_probe\<close>, a world in
  which nothing has happened yet, a bus on which every call returns 0, and a bus whose
  third call (the third write of the command list when \<open>prepare\<close> is the first
  operation) fails with \<^verbatim>\<open>-EIO\<close> while every other call returns 0.
\<close>

definition fresh_panel :: rm69080 where
  "fresh_panel = \<lparr>dsi = 1, i2c = 0, prepared = False, enabled = False\<rparr>"

definition boot :: world where
  "boot = \<lparr>calls = 0, trace = [], dmesg = []\<rparr>"

definition bus_ok :: bus where
  "bus_ok n = 0"

definition bus_third_fails :: bus where
  "bus_third_fails n = (if n = 2 then - 5 else 0)"

text \<open>
  Further buses: one on which only call 12 fails (exit-sleep-mode, when \<open>prepare\<close> is
  the first operation and the twelve writes succeed), one on which only call 13 fails
  (display-on), and one on which every call fails. A DRM core whose allocation succeeds
  and one whose allocation fails, and a connector with no probed mode yet.
\<close>

definition bus_exit_sleep_fails :: bus where
  "bus_exit_sleep_fails n = (if n = 12 then - 5 else 0)"

definition bus_display_on_fails :: bus where
  "bus_display_on_fails n = (if n = 13 then - 5 else 0)"

definition bus_fails :: bus where
  "bus_fails n = - 5"

definition core_ok :: drm_core where
  "core_ok = \<lparr>alloc_ok = True, mode_name = (\<lambda>m. ''400x400''), mode_vrefresh = (\<lambda>m. 60),
               DRM_MODE_TYPE_DRIVER = 64\<rparr>"

definition core_nomem :: drm_core where
  "core_nomem = core_ok\<lparr>alloc_ok := False\<rparr>"

definition connector0 :: drm_connector where
  "connector0 = \<lparr>probed_modes = [], display_info_width_mm = 35, display_info_height_mm = 35\<rparr>"

section \<open>Properties\<close>

subsection \<open>Helper facts\<close>

lemmas env_defs =
  bus_call_def mipi_dsi_generic_write_def mipi_dsi_dcs_exit_sleep_mode_def
  mipi_dsi_dcs_set_display_on_def mipi_dsi_dcs_set_display_off_def
  mipi_dsi_dcs_enter_sleep_mode_def msleep_def dev_err_def dev_info_def

lemma writes_in_Nil [simp]: "writes_in [] = 0"
  by (simp add: writes_in_def)

lemma writes_in_Cons [simp]:
  "writes_in (entry # rest) =
     (if cmd entry \<noteq> SLEEP_CMD then Suc (writes_in rest) else writes_in rest)"
  by (simp add: writes_in_def)

text \<open>
  When every write the list asks for returns a non-negative value, the loop runs to the
  end of the list and each entry leaves its one event.
\<close>

lemma set_cmd_loop_succeeds:
  assumes "\<forall>i<writes_in cmd_list. 0 \<le> bus (calls w + i)"
  shows "trace (snd (set_cmd_loop bus cmd_list ret w)) = trace w @ map apply_entry cmd_list \<and>
         calls (snd (set_cmd_loop bus cmd_list ret w)) = calls w + writes_in cmd_list"
  using assms
proof (induction cmd_list arbitrary: ret w)
  case Nil
  then show ?case by simp
next
  case (Cons entry rest)
  show ?case
  proof (cases "cmd entry = SLEEP_CMD")
    case True
    let ?w1 = "msleep (unat (param entry)) (dev_info ''sleep: %d ms'' [Num (uint (param entry))] w)"
    have c: "calls ?w1 = calls w" and t: "trace ?w1 = trace w @ [Msleep (unat (param entry))]"
      by (simp_all add: msleep_def dev_info_def)
    have "\<forall>i<writes_in rest. 0 \<le> bus (calls ?w1 + i)"
      using Cons.prems True c by simp
    then show ?thesis
      using Cons.IH [of ?w1 ret] True t c by (simp add: apply_entry_def SLEEP_CMD_def)
  next
    case False
    let ?w1 = "w\<lparr>calls := Suc (calls w), trace := trace w @ [GenericWrite [cmd entry, param entry]]\<rparr>"
    have ok: "0 \<le> bus (calls w)"
      using Cons.prems [rule_format, of 0] False by simp
    have "\<forall>i<writes_in rest. 0 \<le> bus (calls ?w1 + i)"
    proof (intro allI impI)
      fix i assume "i < writes_in rest"
      then show "0 \<le> bus (calls ?w1 + i)"
        using Cons.prems [rule_format, of "Suc i"] False by simp
    qed
    then show ?thesis
      using Cons.IH [of ?w1 "bus (calls w)"] False ok
      by (simp add: apply_entry_def SLEEP_CMD_def mipi_dsi_generic_write_def bus_call_def)
  qed
qed

text \<open>
  When the write of entry \<open>k\<close> is the first to return a negative value, the loop stops
  there: the entries before \<open>k\<close> have left their events, the write of entry \<open>k\<close> is
  the last event, and its return value is the loop's.
\<close>

lemma set_cmd_loop_fails_at:
  assumes "k < length cmd_list"
    and "cmd (cmd_list ! k) \<noteq> SLEEP_CMD"
    and "\<forall>i<k. cmd (cmd_list ! i) \<noteq> SLEEP_CMD \<longrightarrow>
           0 \<le> bus (calls w + writes_in (take i cmd_list))"
    and "bus (calls w + writes_in (take k cmd_list)) < 0"
  shows "fst (set_cmd_loop bus cmd_list ret w) = bus (calls w + writes_in (take k cmd_list)) \<and>
         trace (snd (set_cmd_loop bus cmd_list ret w)) =
           trace w @ map apply_entry (take k cmd_list) @
             [GenericWrite [cmd (cmd_list ! k), param (cmd_list ! k)]] \<and>
         calls (snd (set_cmd_loop bus cmd_list ret w)) =
           calls w + writes_in (take k cmd_list) + 1"
  using assms
proof (induction cmd_list arbitrary: k ret w)
  case Nil
  then show ?case by simp
next
  case (Cons entry rest)
  show ?case
  proof (cases k)
    case 0
    with Cons.prems show ?thesis
      by (simp add: mipi_dsi_generic_write_def bus_call_def dev_err_def)
  next
    case (Suc j)
    have j: "j < length rest" "cmd (rest ! j) \<noteq> SLEEP_CMD"
      using Cons.prems Suc by simp_all
    show ?thesis
    proof (cases "cmd entry = SLEEP_CMD")
      case True
      let ?w1 = "msleep (unat (param entry)) (dev_info ''sleep: %d ms'' [Num (uint (param entry))] w)"
      have c: "calls ?w1 = calls w" and t: "trace ?w1 = trace w @ [Msleep (unat (param entry))]"
        by (simp_all add: msleep_def dev_info_def)
      have "\<forall>i<j. cmd (rest ! i) \<noteq> SLEEP_CMD \<longrightarrow>
              0 \<le> bus (calls ?w1 + writes_in (take i rest))"
      proof (intro allI impI)
        fix i assume "i < j" "cmd (rest ! i) \<noteq> SLEEP_CMD"
        then show "0 \<le> bus (calls ?w1 + writes_in (take i rest))"
          using Cons.prems(3) [rule_format, of "Suc i"] Suc True c by simp
      qed
      moreover have "bus (calls ?w1 + writes_in (take j rest)) < 0"
        using Cons.prems(4) Suc True c by simp
      ultimately show ?thesis
        using Cons.IH [of j ?w1 ret] j Suc True t c
        by (simp add: apply_entry_def SLEEP_CMD_def)
    next
      case False
      let ?w1 = "w\<lparr>calls := Suc (calls w), trace := trace w @ [GenericWrite [cmd entry, param entry]]\<rparr>"
      have ok: "0 \<le> bus (calls w)"
        using Cons.prems(3) [rule_format, of 0] Suc False by simp
      have "\<forall>i<j. cmd (rest ! i) \<noteq> SLEEP_CMD \<longrightarrow>
              0 \<le> bus (calls ?w1 + writes_in (take i rest))"
      proof (intro allI impI)
        fix i assume "i < j" "cmd (rest ! i) \<noteq> SLEEP_CMD"
        then show "0 \<le> bus (calls ?w1 + writes_in (take i rest))"
          using Cons.prems(3) [rule_format, of "Suc i"] Suc False by simp
      qed
      moreover have "bus (calls ?w1 + writes_in (take j rest)) < 0"
        using Cons.prems(4) Suc False by simp
      ultimately show ?thesis
        using Cons.IH [of j ?w1 "bus (calls w)"] j Suc False ok
        by (simp add: apply_entry_def SLEEP_CMD_def mipi_dsi_generic_write_def bus_call_def)
    qed
  qed
qed

lemma table_events:
  "map apply_entry rm69080_400x400_mod =
     [GenericWrite [0xFE, 0x05], GenericWrite [0x05, 0x00], GenericWrite [0xFE, 0x07],
      GenericWrite [0x07, 0x4F], GenericWrite [0xFE, 0x0A], GenericWrite [0x1C, 0x1B],
      GenericWrite [0xFE, 0x00], GenericWrite [0x35, 0x00], GenericWrite [0x51, 0xF0],
      GenericWrite [0x38, 0x00], GenericWrite [0x11, 0x00], Msleep 150, Msleep 150,
      GenericWrite [0x29, 0x00]]"
  by (simp add: rm69080_400x400_mod_def apply_entry_def SLEEP_CMD_def)

lemma table_writes: "writes_in rm69080_400x400_mod = 12"
  by (simp add: rm69080_400x400_mod_def SLEEP_CMD_def)

text \<open>
  \<open>rm69080_prepare\<close> seen from the world the sequencer leaves: the sequencer's return
  value plays no part in what follows.
\<close>

lemma prepare_unfold:
  "rm69080_prepare bus ctx w =
     (let w2 = after_cmd_list bus w in
      if bus (calls w2) \<noteq> 0 then
        (bus (calls w2), ctx,
         dev_err ''mipi_dsi_dcs_exit_sleep_mode() failed: %d'' [Num (bus (calls w2))]
           (snd (mipi_dsi_dcs_exit_sleep_mode bus w2)))
      else if bus (Suc (calls w2)) \<noteq> 0 then
        (bus (Suc (calls w2)), ctx,
         dev_err ''mipi_dsi_dcs_exit_sleep_mode() failed: %d'' [Num (bus (Suc (calls w2)))]
           (snd (mipi_dsi_dcs_set_display_on bus
                   (msleep 40 (snd (mipi_dsi_dcs_exit_sleep_mode bus w2))))))
      else
        (0, ctx\<lparr>prepared := True\<rparr>,
         msleep 20 (snd (mipi_dsi_dcs_set_display_on bus
                           (msleep 40 (snd (mipi_dsi_dcs_exit_sleep_mode bus w2)))))))"
  by (simp add: rm69080_prepare_def after_cmd_list_def Let_def env_defs split: prod.split)

lemma after_cmd_list_ok:
  assumes "\<forall>i<12. 0 \<le> bus (calls w + i)"
  shows "calls (after_cmd_list bus w) = calls w + 12"
    and "trace (after_cmd_list bus w) = trace w @ map apply_entry rm69080_400x400_mod"
proof -
  let ?w1 = "dev_info ''%s:%s'' [Str DSI_DRIVER_NAME, Str ''rm69080_prepare''] w"
  have w1: "calls ?w1 = calls w" "trace ?w1 = trace w"
    by (simp_all add: dev_info_def)
  have "\<forall>i<writes_in rm69080_400x400_mod. 0 \<le> bus (calls ?w1 + i)"
    using assms w1 by (simp add: table_writes)
  from set_cmd_loop_succeeds [OF this, of 0] w1
  show "calls (after_cmd_list bus w) = calls w + 12"
    and "trace (after_cmd_list bus w) = trace w @ map apply_entry rm69080_400x400_mod"
    by (simp_all add: after_cmd_list_def set_cmd_rm69080_def table_writes)
qed



lemmas drm_defs = drm_mode_duplicate_def drm_mode_set_name_def drm_mode_probed_add_def


subsection \<open>The command sequencer stops at the first failed write\<close>

text \<open>
  Claim C2. For every command list and every index \<open>k\<close> whose bus write is the first
  to fail (to return a negative value), \<open>set_cmd_rm69080\<close> applies exactly the first
  \<open>k\<close> entries, each write entry as the two bytes register and value and each entry of
  register \<open>0x00\<close> as a sleep of \<open>value\<close> milliseconds, then issues the write of entry
  \<open>k\<close>, does nothing after it, and returns the value that write returned. The write of
  an entry is the bus call numbered by the writes before it.
\<close>

theorem set_cmd_rm69080_stops_at_failure:
  assumes "k < length cmd_list"
    and "cmd (cmd_list ! k) \<noteq> SLEEP_CMD"
    and "\<forall>i<k. cmd (cmd_list ! i) \<noteq> SLEEP_CMD \<longrightarrow>
           0 \<le> bus (calls w + writes_in (take i cmd_list))"
    and "bus (calls w + writes_in (take k cmd_list)) < 0"
  shows "fst (set_cmd_rm69080 bus cmd_list w) = bus (calls w + writes_in (take k cmd_list)) \<and>
         trace (snd (set_cmd_rm69080 bus cmd_list w)) =
           trace w @ map apply_entry (take k cmd_list) @
             [GenericWrite [cmd (cmd_list ! k), param (cmd_list ! k)]]"
  using set_cmd_loop_fails_at [OF assms, of 0] by (simp add: set_cmd_rm69080_def)

theorem set_cmd_rm69080_stops_at_failure_witness:
  "(2::nat) < length rm69080_400x400_mod \<and>
   cmd (rm69080_400x400_mod ! 2) \<noteq> SLEEP_CMD \<and>
   0 \<le> bus_third_fails 0 \<and> 0 \<le> bus_third_fails 1 \<and> bus_third_fails 2 < 0 \<and>
   fst (set_cmd_rm69080 bus_third_fails rm69080_400x400_mod boot) = - 5 \<and>
   trace (snd (set_cmd_rm69080 bus_third_fails rm69080_400x400_mod boot)) =
     [GenericWrite [0xFE, 0x05], GenericWrite [0x05, 0x00], GenericWrite [0xFE, 0x07]]"
proof -
  have h: "\<forall>i<2. cmd (rm69080_400x400_mod ! i) \<noteq> SLEEP_CMD \<longrightarrow>
             0 \<le> bus_third_fails (calls boot + writes_in (take i rm69080_400x400_mod))"
    by (simp add: numeral_2_eq_2 All_less_Suc bus_third_fails_def boot_def
        rm69080_400x400_mod_def SLEEP_CMD_def)
  have t: "take 2 rm69080_400x400_mod =
             [\<lparr>cmd = 0xFE, param = 0x05\<rparr>, \<lparr>cmd = 0x05, param = 0x00\<rparr>]"
    by (simp add: rm69080_400x400_mod_def)
  have n: "rm69080_400x400_mod ! 2 = \<lparr>cmd = 0xFE, param = 0x07\<rparr>"
    by (simp add: rm69080_400x400_mod_def)
  show ?thesis
    using set_cmd_rm69080_stops_at_failure
            [of 2 rm69080_400x400_mod bus_third_fails boot, OF _ _ h]
    by (simp add: t n bus_third_fails_def boot_def SLEEP_CMD_def apply_entry_def)
       (simp add: rm69080_400x400_mod_def)
qed

subsection \<open>\<open>prepare\<close> when every bus call succeeds\<close>

text \<open>
  Claim C5. On an unprepared panel, when the twelve writes of the command list return
  non-negative values and the two DCS commands return 0, \<open>rm69080_prepare\<close> applies
  the 14 entries of the vendor table in table order (12 two-byte writes and 2 sleeps of
  150 ms), then issues exit-sleep-mode, sleeps 40 ms, issues display-on, sleeps 20 ms,
  returns 0 and leaves \<open>prepared\<close> set.
\<close>

theorem prepare_fresh_all_succeed:
  assumes "\<not> prepared ctx"
    and "\<forall>i<12. 0 \<le> bus (calls w + i)"
    and "bus (calls w + 12) = 0"
    and "bus (calls w + 13) = 0"
  shows "fst (rm69080_prepare bus ctx w) = 0 \<and>
         fst (snd (rm69080_prepare bus ctx w)) = ctx\<lparr>prepared := True\<rparr> \<and>
         prepared (fst (snd (rm69080_prepare bus ctx w))) \<and>
         trace (snd (snd (rm69080_prepare bus ctx w))) = trace w @
           [GenericWrite [0xFE, 0x05], GenericWrite [0x05, 0x00], GenericWrite [0xFE, 0x07],
            GenericWrite [0x07, 0x4F], GenericWrite [0xFE, 0x0A], GenericWrite [0x1C, 0x1B],
            GenericWrite [0xFE, 0x00], GenericWrite [0x35, 0x00], GenericWrite [0x51, 0xF0],
            GenericWrite [0x38, 0x00], GenericWrite [0x11, 0x00], Msleep 150, Msleep 150,
            GenericWrite [0x29, 0x00],
            DcsExitSleepMode, Msleep 40, DcsSetDisplayOn, Msleep 20]"
proof -
  let ?w1 = "dev_info ''%s:%s'' [Str DSI_DRIVER_NAME, Str ''rm69080_prepare''] w"
  obtain r0 w2 where run: "set_cmd_loop bus rm69080_400x400_mod 0 ?w1 = (r0, w2)"
    by (cases "set_cmd_loop bus rm69080_400x400_mod 0 ?w1")
  have w1: "calls ?w1 = calls w" "trace ?w1 = trace w"
    by (simp_all add: dev_info_def)
  have "\<forall>i<writes_in rm69080_400x400_mod. 0 \<le> bus (calls ?w1 + i)"
    using assms(2) w1 by (simp add: table_writes)
  from set_cmd_loop_succeeds [OF this, of 0] run w1
  have w2: "trace w2 = trace w @ map apply_entry rm69080_400x400_mod" "calls w2 = calls w + 12"
    by (simp_all add: table_writes)
  have e1: "bus (calls w2) = 0" and e2: "bus (Suc (calls w2)) = 0"
    using assms(3,4) w2(2) by (simp_all add: numeral_eq_Suc)
  show ?thesis
    using run e1 e2 w2(1)
    by (simp add: rm69080_prepare_def set_cmd_rm69080_def env_defs table_events)
qed

theorem prepare_fresh_all_succeed_witness:
  "\<not> prepared fresh_panel \<and> 0 \<le> bus_ok (calls boot + 11) \<and> bus_ok (calls boot + 12) = 0 \<and>
   bus_ok (calls boot + 13) = 0 \<and>
   fst (rm69080_prepare bus_ok fresh_panel boot) = 0 \<and>
   prepared (fst (snd (rm69080_prepare bus_ok fresh_panel boot))) \<and>
   trace (snd (snd (rm69080_prepare bus_ok fresh_panel boot))) =
     [GenericWrite [0xFE, 0x05], GenericWrite [0x05, 0x00], GenericWrite [0xFE, 0x07],
      GenericWrite [0x07, 0x4F], GenericWrite [0xFE, 0x0A], GenericWrite [0x1C, 0x1B],
      GenericWrite [0xFE, 0x00], GenericWrite [0x35, 0x00], GenericWrite [0x51, 0xF0],
      GenericWrite [0x38, 0x00], GenericWrite [0x11, 0x00], Msleep 150, Msleep 150,
      GenericWrite [0x29, 0x00],
      DcsExitSleepMode, Msleep 40, DcsSetDisplayOn, Msleep 20]"
  using prepare_fresh_all_succeed [of fresh_panel bus_ok boot]
  by (simp add: fresh_panel_def bus_ok_def boot_def)

subsection \<open>The invariant \<open>enabled \<longrightarrow> prepared\<close>\<close>




subsection \<open>\<open>prepare\<close> and a failed command list\<close>

text \<open>
  Claim C3: what the code does when the third write of the vendor table fails. The
  sequencer stops after three writes and returns the failure (\<open>- 5\<close>), as the claim
  says; \<open>rm69080_prepare\<close> drops that value, goes on with exit-sleep-mode and
  display-on, returns 0 and sets \<open>prepared\<close>, which the claim denies.
\<close>

theorem prepare_ignores_failed_command_list:
  "fst (set_cmd_rm69080 bus_third_fails rm69080_400x400_mod
          (dev_info ''%s:%s'' [Str DSI_DRIVER_NAME, Str ''rm69080_prepare''] boot)) = - 5 \<and>
   fst (rm69080_prepare bus_third_fails fresh_panel boot) = 0 \<and>
   prepared (fst (snd (rm69080_prepare bus_third_fails fresh_panel boot))) \<and>
   trace (snd (snd (rm69080_prepare bus_third_fails fresh_panel boot))) =
     [GenericWrite [0xFE, 0x05], GenericWrite [0x05, 0x00], GenericWrite [0xFE, 0x07],
      DcsExitSleepMode, Msleep 40, DcsSetDisplayOn, Msleep 20]"
  by (simp add: rm69080_prepare_def set_cmd_rm69080_def rm69080_400x400_mod_def SLEEP_CMD_def
      env_defs bus_third_fails_def boot_def fresh_panel_def)

subsection \<open>\<open>prepare\<close> on a prepared panel\<close>

text \<open>
  Claim C4: what the code does when \<open>prepare\<close> is called on a panel whose \<open>prepared\<close>
  flag is already set. It returns 0 and the flag stays set, but \<open>rm69080_prepare\<close>
  does not test the flag: the whole power-on sequence goes over the bus again, twelve
  writes, two DCS commands and four sleeps, where the claim says there is none.
\<close>

theorem prepare_on_prepared_panel_repeats_writes:
  "prepared (fresh_panel\<lparr>prepared := True\<rparr>) \<and>
   fst (rm69080_prepare bus_ok (fresh_panel\<lparr>prepared := True\<rparr>) boot) = 0 \<and>
   trace (snd (snd (rm69080_prepare bus_ok (fresh_panel\<lparr>prepared := True\<rparr>) boot))) =
     [GenericWrite [0xFE, 0x05], GenericWrite [0x05, 0x00], GenericWrite [0xFE, 0x07],
      GenericWrite [0x07, 0x4F], GenericWrite [0xFE, 0x0A], GenericWrite [0x1C, 0x1B],
      GenericWrite [0xFE, 0x00], GenericWrite [0x35, 0x00], GenericWrite [0x51, 0xF0],
      GenericWrite [0x38, 0x00], GenericWrite [0x11, 0x00], Msleep 150, Msleep 150,
      GenericWrite [0x29, 0x00],
      DcsExitSleepMode, Msleep 40, DcsSetDisplayOn, Msleep 20]"
  by (simp add: rm69080_prepare_def set_cmd_rm69080_def rm69080_400x400_mod_def SLEEP_CMD_def
      env_defs bus_ok_def boot_def fresh_panel_def)

subsection \<open>\<open>prepare\<close> when a mandatory step fails\<close>

text \<open>
  Claim C6. On an unprepared panel: if exit-sleep-mode fails (returns a value other
  than 0), \<open>rm69080_prepare\<close> returns that value, issues nothing after
  exit-sleep-mode (no display-on), and leaves the context as it was, \<open>prepared\<close>
  false. If exit-sleep-mode succeeds and display-on fails, it returns the value of
  display-on and again leaves the context as it was, \<open>prepared\<close> false.
\<close>

theorem prepare_mandatory_step_fails:
  assumes "\<not> prepared ctx"
  shows "(bus (calls (after_cmd_list bus w)) \<noteq> 0 \<longrightarrow>
            fst (rm69080_prepare bus ctx w) = bus (calls (after_cmd_list bus w)) \<and>
            fst (rm69080_prepare bus ctx w) \<noteq> 0 \<and>
            fst (snd (rm69080_prepare bus ctx w)) = ctx \<and>
            \<not> prepared (fst (snd (rm69080_prepare bus ctx w))) \<and>
            trace (snd (snd (rm69080_prepare bus ctx w))) =
              trace (after_cmd_list bus w) @ [DcsExitSleepMode]) \<and>
         (bus (calls (after_cmd_list bus w)) = 0 \<and>
          bus (Suc (calls (after_cmd_list bus w))) \<noteq> 0 \<longrightarrow>
            fst (rm69080_prepare bus ctx w) = bus (Suc (calls (after_cmd_list bus w))) \<and>
            fst (rm69080_prepare bus ctx w) \<noteq> 0 \<and>
            fst (snd (rm69080_prepare bus ctx w)) = ctx \<and>
            \<not> prepared (fst (snd (rm69080_prepare bus ctx w))) \<and>
            trace (snd (snd (rm69080_prepare bus ctx w))) =
              trace (after_cmd_list bus w) @ [DcsExitSleepMode, Msleep 40, DcsSetDisplayOn])"
  using assms by (simp add: prepare_unfold Let_def env_defs)

theorem prepare_mandatory_step_fails_witness:
  "\<not> prepared fresh_panel \<and>
   bus_exit_sleep_fails (calls (after_cmd_list bus_exit_sleep_fails boot)) \<noteq> 0 \<and>
   fst (rm69080_prepare bus_exit_sleep_fails fresh_panel boot) = - 5 \<and>
   \<not> prepared (fst (snd (rm69080_prepare bus_exit_sleep_fails fresh_panel boot))) \<and>
   DcsSetDisplayOn \<notin>
     set (trace (snd (snd (rm69080_prepare bus_exit_sleep_fails fresh_panel boot)))) \<and>
   bus_display_on_fails (calls (after_cmd_list bus_display_on_fails boot)) = 0 \<and>
   bus_display_on_fails (Suc (calls (after_cmd_list bus_display_on_fails boot))) \<noteq> 0 \<and>
   fst (rm69080_prepare bus_display_on_fails fresh_panel boot) = - 5 \<and>
   \<not> prepared (fst (snd (rm69080_prepare bus_display_on_fails fresh_panel boot)))"
proof -
  have a: "calls (after_cmd_list bus_exit_sleep_fails boot) = 12"
    "trace (after_cmd_list bus_exit_sleep_fails boot) = map apply_entry rm69080_400x400_mod"
    using after_cmd_list_ok [of bus_exit_sleep_fails boot]
    by (simp_all add: bus_exit_sleep_fails_def boot_def)
  have b: "calls (after_cmd_list bus_display_on_fails boot) = 12"
    using after_cmd_list_ok [of bus_display_on_fails boot]
    by (simp_all add: bus_display_on_fails_def boot_def)
  have p: "\<not> prepared fresh_panel"
    by (simp add: fresh_panel_def)
  show ?thesis
    using prepare_mandatory_step_fails [OF p, of bus_exit_sleep_fails boot]
      prepare_mandatory_step_fails [OF p, of bus_display_on_fails boot]
    by (simp add: a b p bus_exit_sleep_fails_def bus_display_on_fails_def table_events)
qed

subsection \<open>\<open>unprepare\<close> is best effort\<close>

text \<open>
  Claim C7. \<open>rm69080_unprepare\<close> always returns 0 and always ends with \<open>prepared\<close>
  false, whatever the bus returns. On a prepared panel it issues display-off and then
  enter-sleep-mode, both of them even when one or both fail; a failure only adds a line
  to the log. On an unprepared panel it issues nothing and leaves the context as it
  was.
\<close>

theorem unprepare_best_effort:
  "fst (rm69080_unprepare bus ctx w) = 0 \<and>
   fst (snd (rm69080_unprepare bus ctx w)) = ctx\<lparr>prepared := False\<rparr> \<and>
   \<not> prepared (fst (snd (rm69080_unprepare bus ctx w))) \<and>
   trace (snd (snd (rm69080_unprepare bus ctx w))) =
     trace w @ (if prepared ctx then [DcsSetDisplayOff, DcsEnterSleepMode] else []) \<and>
   dmesg (snd (snd (rm69080_unprepare bus ctx w))) =
     dmesg w @ [DevInfo ''%s:%s'' [Str DSI_DRIVER_NAME, Str ''rm69080_unprepare'']] @
       (if prepared ctx \<and> bus (calls w) \<noteq> 0
        then [DevInfo ''failed to set display off: %d'' [Num (bus (calls w))]] else []) @
       (if prepared ctx \<and> bus (Suc (calls w)) \<noteq> 0
        then [DevInfo ''failed to enter sleep mode: %d'' [Num (bus (Suc (calls w)))]] else []) \<and>
   (\<not> prepared ctx \<longrightarrow> fst (snd (rm69080_unprepare bus ctx w)) = ctx)"
  by (simp add: rm69080_unprepare_def Let_def env_defs)

theorem unprepare_best_effort_witness:
  "prepared (fresh_panel\<lparr>prepared := True\<rparr>) \<and> bus_fails 0 \<noteq> 0 \<and> bus_fails 1 \<noteq> 0 \<and>
   fst (rm69080_unprepare bus_fails (fresh_panel\<lparr>prepared := True\<rparr>) boot) = 0 \<and>
   \<not> prepared (fst (snd (rm69080_unprepare bus_fails (fresh_panel\<lparr>prepared := True\<rparr>) boot))) \<and>
   trace (snd (snd (rm69080_unprepare bus_fails (fresh_panel\<lparr>prepared := True\<rparr>) boot))) =
     [DcsSetDisplayOff, DcsEnterSleepMode] \<and>
   \<not> prepared fresh_panel \<and>
   rm69080_unprepare bus_fails fresh_panel boot =
     (0, fresh_panel,
      boot\<lparr>dmesg := [DevInfo ''%s:%s'' [Str DSI_DRIVER_NAME, Str ''rm69080_unprepare'']]\<rparr>)"
  using unprepare_best_effort [of bus_fails "fresh_panel\<lparr>prepared := True\<rparr>" boot]
    unprepare_best_effort [of bus_fails fresh_panel boot]
  by (simp add: fresh_panel_def bus_fails_def boot_def rm69080_unprepare_def dev_info_def)

subsection \<open>\<open>get_modes\<close>\<close>

text \<open>
  Claim C8. \<open>rm69080_get_modes\<close> fails only if the mode duplication of the DRM core
  fails: whenever the duplication succeeds it returns 1 and has added the one
  supported mode, named and typed as a driver mode, to the connector's probed modes.
\<close>

theorem get_modes_fails_only_if_duplicate_fails:
  "(isl (rm69080_get_modes core ctx connector w) \<longrightarrow> \<not> alloc_ok core) \<and>
   (alloc_ok core \<longrightarrow>
      (\<exists>w'. rm69080_get_modes core ctx connector w =
         Inr (1,
              drm_mode_probed_add
                (connector\<lparr>display_info_width_mm := 0, display_info_height_mm := 0\<rparr>)
                ((drm_mode_set_name core (rm69080_modes ! 0))
                   \<lparr>mode_type := DRM_MODE_TYPE_DRIVER core\<rparr>),
              w')))"
  by (simp add: rm69080_get_modes_def Let_def drm_defs rm69080_modes_def)

theorem get_modes_fails_only_if_duplicate_fails_witness:
  "isl (rm69080_get_modes core_nomem fresh_panel connector0 boot) \<and> \<not> alloc_ok core_nomem \<and>
   alloc_ok core_ok \<and>
   fst (projr (rm69080_get_modes core_ok fresh_panel connector0 boot)) = 1 \<and>
   map name
     (probed_modes (fst (snd (projr (rm69080_get_modes core_ok fresh_panel connector0 boot)))))
     = [''400x400'']"
  using get_modes_fails_only_if_duplicate_fails [of core_nomem fresh_panel connector0 boot]
    get_modes_fails_only_if_duplicate_fails [of core_ok fresh_panel connector0 boot]
  by (auto simp add: core_ok_def core_nomem_def connector0_def drm_defs rm69080_get_modes_def
      Let_def)

text \<open>
  Claim C9, as stated, fails: \<open>rm69080_get_modes\<close> does not return a mode on every
  call. When the mode duplication of the DRM core fails, the function logs the failure
  and then reads through the null pointer; it returns no count and adds no mode.
\<close>

theorem get_modes_no_mode_counterexample:
  "\<not> alloc_ok core_nomem \<and>
   rm69080_get_modes core_nomem fresh_panel connector0 boot =
     Inl (NullPointerDereference,
          boot\<lparr>dmesg :=
            [DevInfo ''%s:%s'' [Str DSI_DRIVER_NAME, Str ''rm69080_get_modes''],
             DevErr ''mipi_dsi_attach() failed'' [],
             DevInfo ''add mode %ux%u@%u'' [Num 400, Num 400, Num 60]]\<rparr>)"
  by (simp add: rm69080_get_modes_def Let_def drm_defs rm69080_modes_def core_nomem_def
      core_ok_def boot_def dev_info_def dev_err_def)

text \<open>
  Claim C9, amended. The mode table has one entry, and whenever the mode duplication
  of the DRM core succeeds \<open>rm69080_get_modes\<close> returns, its count is 1 and it has
  added exactly one mode to the connector: 400 by 400 active pixels, front porch, sync
  and back porch of 10 each in both directions, so \<open>htotal = 400 + 10 + 10 + 10 = 430\<close>
  and \<open>vtotal = 430\<close>.
\<close>

theorem get_modes_single_400x400_mode:
  assumes "alloc_ok core"
  shows "length rm69080_modes = 1 \<and>
         (\<exists>connector' w' m.
              rm69080_get_modes core ctx connector w = Inr (1, connector', w') \<and>
              probed_modes connector' = probed_modes connector @ [m] \<and>
              hdisplay m = 400 \<and> vdisplay m = 400 \<and>
              hsync_start m - hdisplay m = 10 \<and> hsync_end m - hsync_start m = 10 \<and>
              htotal m - hsync_end m = 10 \<and>
              htotal m = 400 + 10 + 10 + 10 \<and> htotal m = 430 \<and>
              vsync_start m - vdisplay m = 10 \<and> vsync_end m - vsync_start m = 10 \<and>
              vtotal m - vsync_end m = 10 \<and>
              vtotal m = 400 + 10 + 10 + 10 \<and> vtotal m = 430)"
  using assms
  by (simp add: rm69080_get_modes_def Let_def drm_defs rm69080_modes_def)

theorem get_modes_single_400x400_mode_witness:
  "alloc_ok core_ok \<and>
   \<not> isl (rm69080_get_modes core_ok fresh_panel connector0 boot) \<and>
   fst (projr (rm69080_get_modes core_ok fresh_panel connector0 boot)) = 1 \<and>
   map (\<lambda>m. (hdisplay m, vdisplay m, htotal m, vtotal m))
     (probed_modes (fst (snd (projr (rm69080_get_modes core_ok fresh_panel connector0 boot)))))
     = [(400, 400, 430, 430)]"
proof -
  have a: "alloc_ok core_ok"
    by (simp add: core_ok_def)
  have c: "probed_modes connector0 = []"
    by (simp add: connector0_def)
  show ?thesis
    using get_modes_single_400x400_mode [OF a, of fresh_panel connector0 boot] a c by auto
qed

subsection \<open>Each callback touches only its own flag\<close>

text \<open>
  Claim C10. \<open>rm69080_enable\<close> and \<open>rm69080_disable\<close> return 0, change nothing of the
  context but \<open>enabled\<close>, and leave the bus and the clock alone (the world only gains
  the line logged on entry); \<open>enable\<close> does so whether or not the panel is prepared.
  \<open>rm69080_prepare\<close> and \<open>rm69080_unprepare\<close> change nothing of the context but
  \<open>prepared\<close>; \<open>enabled\<close> is as it was.
\<close>

theorem callbacks_touch_only_their_flag:
  "rm69080_enable bus ctx w =
     (0, ctx\<lparr>enabled := True\<rparr>,
      w\<lparr>dmesg := dmesg w @ [DevInfo ''%s:%s'' [Str DSI_DRIVER_NAME, Str ''rm69080_enable'']]\<rparr>) \<and>
   rm69080_disable bus ctx w =
     (0, ctx\<lparr>enabled := False\<rparr>,
      w\<lparr>dmesg := dmesg w @ [DevInfo ''%s:%s'' [Str DSI_DRIVER_NAME, Str ''rm69080_disable'']]\<rparr>) \<and>
   fst (snd (rm69080_prepare bus ctx w))\<lparr>prepared := prepared ctx\<rparr> = ctx \<and>
   enabled (fst (snd (rm69080_prepare bus ctx w))) = enabled ctx \<and>
   fst (snd (rm69080_unprepare bus ctx w))\<lparr>prepared := prepared ctx\<rparr> = ctx \<and>
   enabled (fst (snd (rm69080_unprepare bus ctx w))) = enabled ctx"
  by (simp add: rm69080_enable_def rm69080_disable_def prepare_unfold rm69080_unprepare_def
      Let_def env_defs)

end
